theory Spec2Isabelle
  imports Main
begin

section \<open>Render output\<close>

text \<open>
  A component returns a tree of elements. An element carries its tag (a DOM tag, or the
  name of an imported component such as \<open>Card\<close>, whose source is not part of the
  embedding), its string attributes, its inline \<open>style\<close> object, its event-handler
  props and its children. A style value is a string or a number, as in the JSX
  (\<open>height: '1200px'\<close>, \<open>opacity: 0\<close>).
\<close>

datatype js_value = Str string | Num int

datatype action = HandleIframeLoad

datatype node =
    Element string "(string \<times> string) list" "(string \<times> js_value) list"
      "(string \<times> action) list" "node list"
  | TextNode string

fun tag :: "node \<Rightarrow> string option" where
  "tag (Element t ps st hs cs) = Some t"
| "tag (TextNode s) = None"

fun props :: "node \<Rightarrow> (string \<times> string) list" where
  "props (Element t ps st hs cs) = ps"
| "props (TextNode s) = []"

fun style :: "node \<Rightarrow> (string \<times> js_value) list" where
  "style (Element t ps st hs cs) = st"
| "style (TextNode s) = []"

fun handlers :: "node \<Rightarrow> (string \<times> action) list" where
  "handlers (Element t ps st hs cs) = hs"
| "handlers (TextNode s) = []"

fun children :: "node \<Rightarrow> node list" where
  "children (Element t ps st hs cs) = cs"
| "children (TextNode s) = []"

text \<open>All nodes of a tree, the root first, in document order.\<close>

fun subnodes :: "node \<Rightarrow> node list" where
  "subnodes (TextNode s) = [TextNode s]"
| "subnodes (Element t ps st hs cs) =
     Element t ps st hs cs # concat (map subnodes cs)"

definition nodes_with_tag :: "string \<Rightarrow> node \<Rightarrow> node list" where
  "nodes_with_tag t tree = filter (\<lambda>n. tag n = Some t) (subnodes tree)"

definition mounted :: "node \<Rightarrow> node \<Rightarrow> bool" where
  "mounted n tree \<longleftrightarrow> n \<in> set (subnodes tree)"

fun text_of :: "node \<Rightarrow> string list" where
  "text_of (TextNode s) = [s]"
| "text_of (Element t ps st hs cs) = []"

definition texts :: "node \<Rightarrow> string list" where
  "texts tree = concat (map text_of (subnodes tree))"

definition text_content :: "node \<Rightarrow> string" where
  "text_content tree = concat (texts tree)"

fun tag_of :: "node \<Rightarrow> string list" where
  "tag_of (TextNode s) = []"
| "tag_of (Element t ps st hs cs) = [t]"

definition element_tags :: "node \<Rightarrow> string list" where
  "element_tags tree = concat (map tag_of (subnodes tree))"

definition all_handlers :: "node \<Rightarrow> (string \<times> action) list" where
  "all_handlers tree = concat (map handlers (subnodes tree))"

section \<open>IframeSkeleton (components/ui/iframe-skeleton.tsx)\<close>

text \<open>
  The three props are optional: a prop that is left out is \<open>undefined\<close>, here
  \<open>None\<close>, and the destructuring default applies to it. A string child
  \<open>{text}\<close> is rendered as a text node, except the empty string, for which React
  renders nothing.
\<close>

definition text_child :: "string \<Rightarrow> node list" where
  "text_child s = (if s = [] then [] else [TextNode s])"

record IframeSkeletonProps =
  sk_height :: "string option"
  sk_className :: "string option"
  sk_text :: "string option"

definition default_to :: "'a \<Rightarrow> 'a option \<Rightarrow> 'a" where
  "default_to d v = (case v of None \<Rightarrow> d | Some x \<Rightarrow> x)"

definition IframeSkeleton :: "IframeSkeletonProps \<Rightarrow> node" where
  "IframeSkeleton p =
     (let height = default_to ''1200px'' (sk_height p);
          className = default_to '''' (sk_className p);
          text = default_to ''Loading calendar...'' (sk_text p)
      in Element ''div'' [(''className'', ''w-full '' @ className)]
           [(''height'', Str height)] []
           [Element ''Card''
              [(''className'',
                ''w-full h-full p-8 bg-gray-50 dark:bg-gray-900 border border-gray-200 dark:border-gray-700 flex items-center justify-center'')]
              [] []
              [Element ''div''
                 [(''className'', ''flex items-center gap-3 text-gray-500 dark:text-gray-400'')]
                 [] []
                 [Element ''div''
                    [(''className'',
                      ''animate-spin rounded-full h-8 w-8 border-b-2 border-blue-600'')]
                    [] [] [],
                  Element ''span'' [(''className'', ''text-lg font-medium'')] [] []
                    (text_child text)]]])"

section \<open>GoogleDocEmbed (pages/Home.tsx)\<close>

text \<open>
  The component's only state is the flag of \<open>useState(true)\<close>. The ref
  \<open>iframeRef\<close> is attached to the iframe and never read, so it is not part of the
  state.
\<close>

record GoogleDocEmbed_state =
  isLoading :: bool

definition initial_state :: GoogleDocEmbed_state where
  "initial_state = \<lparr>isLoading = True\<rparr>"

definition GOOGLE_DOC_URL :: string where
  "GOOGLE_DOC_URL =
     ''https://docs.google.com/document/d/1Ppt5T9w8sUsd-aUSZ9rcst4KtCdgOcg6NuV6-tWE814/edit?tab=t.0''"

definition handleIframeLoad :: "GoogleDocEmbed_state \<Rightarrow> GoogleDocEmbed_state" where
  "handleIframeLoad s = s\<lparr>isLoading := False\<rparr>"

text \<open>The skeleton as \<open>GoogleDocEmbed\<close> instantiates it, and the wrapper around it.\<close>

definition syllabus_skeleton :: node where
  "syllabus_skeleton =
     IframeSkeleton \<lparr>sk_height = Some ''1200px'', sk_className = None,
       sk_text = Some ''Loading Syllabus...''\<rparr>"

definition skeleton_wrapper :: node where
  "skeleton_wrapper =
     Element ''div'' [(''className'', ''absolute inset-0 z-10'')] [] [] [syllabus_skeleton]"

text \<open>
  \<open>{isLoading && (...)}\<close> yields the wrapper when the flag is set and \<open>false\<close>
  otherwise, which React renders as nothing: the child is absent from the output.
\<close>

definition iframe_element :: "GoogleDocEmbed_state \<Rightarrow> node" where
  "iframe_element s =
     Element ''iframe''
       [(''src'', GOOGLE_DOC_URL),
        (''className'', ''w-full h-full border-0 rounded-lg shadow-lg''),
        (''title'', ''Course Document''),
        (''loading'', ''eager'')]
       [(''opacity'', Num (if isLoading s then 0 else 1)),
        (''transition'', Str ''opacity 0.3s ease-in-out'')]
       [(''onLoad'', HandleIframeLoad)]
       []"

definition GoogleDocEmbed :: "GoogleDocEmbed_state \<Rightarrow> node" where
  "GoogleDocEmbed s =
     Element ''div'' [(''className'', ''bg-white pb-8'')] [] []
       [Element ''div'' [(''className'', ''container mx-auto px-4 py-8'')] [] []
          [Element ''div'' [(''className'', ''w-full relative'')]
             [(''height'', Str ''1200px'')] []
             ((if isLoading s then [skeleton_wrapper] else []) @ [iframe_element s])]]"

text \<open>
  Events. The embedding surface delivers a named event with some detail object to the
  iframe; React calls the handler that the iframe of the current render output carries
  under that name, passing the detail, and an event with no handler changes nothing.
  \<open>handleIframeLoad\<close> declares no parameter, so the detail it is called with is
  dropped.
\<close>

fun run_action :: "action \<Rightarrow> 'd \<Rightarrow> GoogleDocEmbed_state \<Rightarrow> GoogleDocEmbed_state" where
  "run_action HandleIframeLoad detail s = handleIframeLoad s"

definition dispatch :: "string \<times> 'd \<Rightarrow> GoogleDocEmbed_state \<Rightarrow> GoogleDocEmbed_state" where
  "dispatch ev s =
     (case nodes_with_tag ''iframe'' (GoogleDocEmbed s) of
        [] \<Rightarrow> s
      | n # _ \<Rightarrow> (case map_of (handlers n) (fst ev) of
                    None \<Rightarrow> s
                  | Some a \<Rightarrow> run_action a (snd ev) s))"

fun run_events :: "(string \<times> 'd) list \<Rightarrow> GoogleDocEmbed_state \<Rightarrow> GoogleDocEmbed_state" where
  "run_events [] s = s"
| "run_events (ev # evs) s = run_events evs (dispatch ev s)"

text \<open>What the claims observe of a render output.\<close>

definition placeholder_visible :: "node \<Rightarrow> bool" where
  "placeholder_visible tree \<longleftrightarrow> mounted syllabus_skeleton tree"

definition iframe_opacity :: "node \<Rightarrow> js_value option list" where
  "iframe_opacity tree = map (\<lambda>n. map_of (style n) ''opacity'') (nodes_with_tag ''iframe'' tree)"

definition iframe_loading_attr :: "node \<Rightarrow> string option list" where
  "iframe_loading_attr tree =
     map (\<lambda>n. map_of (props n) ''loading'') (nodes_with_tag ''iframe'' tree)"

definition iframe_transition :: "node \<Rightarrow> js_value option list" where
  "iframe_transition tree =
     map (\<lambda>n. map_of (style n) ''transition'') (nodes_with_tag ''iframe'' tree)"

section \<open>cn (pages/Home.tsx)\<close>

text \<open>
  An argument of \<open>cn\<close> is a string, \<open>undefined\<close>, \<open>null\<close> or a boolean.
  \<open>filter(Boolean)\<close> keeps the entries that \<open>ToBoolean\<close> maps to true.
  \<open>Array.prototype.join\<close> runs over the indices, puts the separator before every
  element but the first, and appends the empty string for \<open>undefined\<close> and
  \<open>null\<close> and \<open>ToString\<close> of any other element.
\<close>

datatype class_value = CStr string | CUndefined | CNull | CBool bool

fun Boolean :: "class_value \<Rightarrow> bool" where
  "Boolean (CStr s) = (s \<noteq> [])"
| "Boolean CUndefined = False"
| "Boolean CNull = False"
| "Boolean (CBool b) = b"

fun join_element :: "class_value \<Rightarrow> string" where
  "join_element (CStr s) = s"
| "join_element CUndefined = []"
| "join_element CNull = []"
| "join_element (CBool b) = (if b then ''true'' else ''false'')"

fun join_loop :: "string \<Rightarrow> class_value list \<Rightarrow> nat \<Rightarrow> string \<Rightarrow> string" where
  "join_loop sep [] k R = R"
| "join_loop sep (x # xs) k R =
     join_loop sep xs (Suc k) ((if 0 < k then R @ sep else R) @ join_element x)"

definition join :: "class_value list \<Rightarrow> string \<Rightarrow> string" where
  "join xs sep = join_loop sep xs 0 []"

definition cn :: "class_value list \<Rightarrow> string" where
  "cn classes = join (filter Boolean classes) '' ''"

text \<open>
  The specification's reading, for comparison: the words to be joined, and their
  space-separated join.
\<close>

fun space_separated :: "string list \<Rightarrow> string" where
  "space_separated [] = []"
| "space_separated [w] = w"
| "space_separated (w # v # ws) = w @ '' '' @ space_separated (v # ws)"

definition truthy_entries :: "class_value list \<Rightarrow> class_value list" where
  "truthy_entries classes = filter Boolean classes"

section \<open>The deployment base path (vite.config.ts)\<close>

text \<open>
  An environment variable is a string or \<open>undefined\<close> (\<open>None\<close>). A string is
  falsy exactly when it is empty. \<open>split\<close> cuts at every separator and always
  returns at least one piece; an index past the end of an array reads \<open>undefined\<close>,
  which a template literal prints as the word \<open>undefined\<close>.
\<close>

fun split :: "char \<Rightarrow> string \<Rightarrow> string list" where
  "split c [] = [[]]"
| "split c (x # xs) =
     (if x = c then [] # split c xs
      else (case split c xs of
              [] \<Rightarrow> [[x]]
            | w # ws \<Rightarrow> (x # w) # ws))"

definition index :: "'a list \<Rightarrow> nat \<Rightarrow> 'a option" where
  "index xs i = (if i < length xs then Some (xs ! i) else None)"

definition template_string :: "string option \<Rightarrow> string" where
  "template_string v = (case v of None \<Rightarrow> ''undefined'' | Some s \<Rightarrow> s)"

definition endsWith :: "string \<Rightarrow> string \<Rightarrow> bool" where
  "endsWith s suf \<longleftrightarrow>
     length suf \<le> length s \<and> drop (length s - length suf) s = suf"

fun from_repository :: "string option \<Rightarrow> string" where
  "from_repository None = ''/''"
| "from_repository (Some r) =
     (if r \<noteq> [] then
        (let repoName = index (split CHR ''/'' r) 1
         in ''/'' @ template_string repoName @ ''/'')
      else ''/'')"

fun detected_base :: "string option \<Rightarrow> string option \<Rightarrow> string" where
  "detected_base None GITHUB_REPOSITORY = from_repository GITHUB_REPOSITORY"
| "detected_base (Some b) GITHUB_REPOSITORY =
     (if b \<noteq> [] then b else from_repository GITHUB_REPOSITORY)"

definition base :: "string option \<Rightarrow> string option \<Rightarrow> string" where
  "base VITE_BASE_PATH GITHUB_REPOSITORY =
     (let b = detected_base VITE_BASE_PATH GITHUB_REPOSITORY
      in if b \<noteq> ''/'' \<and> \<not> endsWith b ''/'' then b @ ''/'' else b)"

text \<open>
  The claim's reading, for comparison: the base is \<open>VITE_BASE_PATH\<close> with a slash
  appended if missing when that variable is set, otherwise the part of
  \<open>GITHUB_REPOSITORY\<close> after its first slash, between two slashes, when that variable
  is set, and a single slash otherwise.
\<close>

definition after_first_slash :: "string \<Rightarrow> string" where
  "after_first_slash r = drop 1 (dropWhile (\<lambda>c. c \<noteq> CHR ''/'') r)"

fun claimed_base :: "string option \<Rightarrow> string option \<Rightarrow> string" where
  "claimed_base (Some b) g = (if endsWith b ''/'' then b else b @ ''/'')"
| "claimed_base None (Some r) = ''/'' @ after_first_slash r @ ''/''"
| "claimed_base None None = ''/''"

text \<open>The piece that the code takes: from the first slash up to the next one.\<close>

definition second_piece :: "string \<Rightarrow> string" where
  "second_piece r = takeWhile (\<lambda>c. c \<noteq> CHR ''/'') (after_first_slash r)"

section \<open>The preload coordinator (hooks/use-iframe-preloader)\<close>

text \<open>
  Modelled from the spec: the hook \<open>useIframePreloader\<close> is imported by
  \<open>Home.tsx\<close> and called on every mount of the page, but its file is not among the
  sources. The definitions below follow the specification of \<open>EnsurePreloaded\<close>:
  the registry is the process-wide set of ids already submitted, initially empty; for
  each descriptor whose id is not in the registry, the id is added and one hidden
  embedding surface bound to the descriptor is instantiated; a descriptor whose id is in
  the registry is skipped.
\<close>

datatype resource_kind = Document | Scene3D

record ResourceDescriptor =
  rd_id :: string
  rd_sourceUrl :: string
  rd_kind :: resource_kind

record PreloadCoordinator =
  registry :: "string set"
  instances :: "ResourceDescriptor list"

definition process_start :: PreloadCoordinator where
  "process_start = \<lparr>registry = {}, instances = []\<rparr>"

definition ensure_one :: "PreloadCoordinator \<Rightarrow> ResourceDescriptor \<Rightarrow> PreloadCoordinator" where
  "ensure_one pc d =
     (if rd_id d \<in> registry pc then pc
      else pc\<lparr>registry := insert (rd_id d) (registry pc), instances := instances pc @ [d]\<rparr>)"

fun EnsurePreloaded :: "ResourceDescriptor list \<Rightarrow> PreloadCoordinator \<Rightarrow> PreloadCoordinator" where
  "EnsurePreloaded [] pc = pc"
| "EnsurePreloaded (d # ds) pc = EnsurePreloaded ds (ensure_one pc d)"

fun ensure_calls :: "ResourceDescriptor list list \<Rightarrow> PreloadCoordinator \<Rightarrow> PreloadCoordinator" where
  "ensure_calls [] pc = pc"
| "ensure_calls (L # Ls) pc = ensure_calls Ls (EnsurePreloaded L pc)"

definition instances_for :: "string \<Rightarrow> PreloadCoordinator \<Rightarrow> nat" where
  "instances_for i pc = length (filter (\<lambda>d. rd_id d = i) (instances pc))"

definition ids_of_calls :: "ResourceDescriptor list list \<Rightarrow> string set" where
  "ids_of_calls Ls = set (map rd_id (concat Ls))"

text \<open>
  The registry holds exactly the ids of the instances created so far, and no id has two
  instances.
\<close>

definition coherent :: "PreloadCoordinator \<Rightarrow> bool" where
  "coherent pc \<longleftrightarrow>
     registry pc = set (map rd_id (instances pc)) \<and> distinct (map rd_id (instances pc))"

section \<open>Basic facts about the render output\<close>

lemmas render_defs = GoogleDocEmbed_def skeleton_wrapper_def syllabus_skeleton_def
  IframeSkeleton_def Let_def default_to_def text_child_def iframe_element_def

lemma nodes_with_tag_iframe: "nodes_with_tag ''iframe'' (GoogleDocEmbed s) = [iframe_element s]"
  by (simp add: nodes_with_tag_def render_defs)

lemma subnodes_count: "length (subnodes (GoogleDocEmbed s)) = (if isLoading s then 11 else 4)"
  by (simp add: render_defs)

lemma skeleton_mounted_iff: "mounted syllabus_skeleton (GoogleDocEmbed s) \<longleftrightarrow> isLoading s"
  by (simp add: mounted_def render_defs)

lemma placeholder_visible_iff: "placeholder_visible (GoogleDocEmbed s) \<longleftrightarrow> isLoading s"
  by (simp add: placeholder_visible_def skeleton_mounted_iff)

lemma wrapper_mounted_iff: "mounted skeleton_wrapper (GoogleDocEmbed s) \<longleftrightarrow> isLoading s"
  by (simp add: mounted_def render_defs)

lemma texts_GoogleDocEmbed:
  "texts (GoogleDocEmbed s) = (if isLoading s then [''Loading Syllabus...''] else [])"
  by (simp add: texts_def render_defs)

lemma element_tags_GoogleDocEmbed:
  "element_tags (GoogleDocEmbed s) =
     (if isLoading s
      then [''div'', ''div'', ''div'', ''div'', ''div'', ''Card'', ''div'', ''div'', ''span'',
            ''iframe'']
      else [''div'', ''div'', ''div'', ''iframe''])"
  by (simp add: element_tags_def render_defs)

lemma all_handlers_GoogleDocEmbed:
  "all_handlers (GoogleDocEmbed s) = [(''onLoad'', HandleIframeLoad)]"
  by (simp add: all_handlers_def render_defs)

lemma iframe_opacity_GoogleDocEmbed:
  "iframe_opacity (GoogleDocEmbed s) = [Some (Num (if isLoading s then 0 else 1))]"
  by (simp add: iframe_opacity_def nodes_with_tag_iframe iframe_element_def)

lemma iframe_transition_GoogleDocEmbed:
  "iframe_transition (GoogleDocEmbed s) = [Some (Str ''opacity 0.3s ease-in-out'')]"
  by (simp add: iframe_transition_def nodes_with_tag_iframe iframe_element_def)

lemma iframe_loading_attr_GoogleDocEmbed:
  "iframe_loading_attr (GoogleDocEmbed s) = [Some ''eager'']"
  by (simp add: iframe_loading_attr_def nodes_with_tag_iframe iframe_element_def)

section \<open>Events and the loading flag\<close>

lemma dispatch_onLoad: "dispatch (''onLoad'', d) s = handleIframeLoad s"
  by (simp add: dispatch_def nodes_with_tag_iframe iframe_element_def)

lemma dispatch_unhandled: "name \<noteq> ''onLoad'' \<Longrightarrow> dispatch (name, d) s = s"
  by (simp add: dispatch_def nodes_with_tag_iframe iframe_element_def)

lemma dispatch_cases: "dispatch ev s = (if fst ev = ''onLoad'' then handleIframeLoad s else s)"
  by (cases ev) (simp add: dispatch_onLoad dispatch_unhandled)

lemma run_events_append: "run_events (xs @ ys) s = run_events ys (run_events xs s)"
  by (induction xs arbitrary: s) simp_all

lemma run_events_loaded: "\<not> isLoading s \<Longrightarrow> \<not> isLoading (run_events evs s)"
  by (induction evs arbitrary: s) (simp_all add: dispatch_cases handleIframeLoad_def)

lemma run_events_no_load: "''onLoad'' \<notin> set (map fst evs) \<Longrightarrow> run_events evs s = s"
  by (induction evs arbitrary: s) (auto simp: dispatch_cases)

lemma run_events_after_load:
  "run_events (before @ (''onLoad'', d) # after) s = \<lparr>isLoading = False\<rparr>"
proof -
  have "\<not> isLoading (dispatch (''onLoad'', d) (run_events before s))"
    by (simp add: dispatch_onLoad handleIframeLoad_def)
  then have "\<not> isLoading (run_events after (dispatch (''onLoad'', d) (run_events before s)))"
    by (rule run_events_loaded)
  then show ?thesis
    by (simp add: run_events_append)
qed

text \<open>
  C1. Once the load event has been delivered to an instance, whatever came before it and
  whatever comes after it (further load events included), the loading flag is false and
  the placeholder is not shown; a second load event leaves the state of the first one.
  No sequence of events leads back to the loading state.
\<close>

theorem loading_to_loaded_one_way:
  "\<not> isLoading (run_events (before @ (''onLoad'', d) # after) s) \<and>
   \<not> placeholder_visible (GoogleDocEmbed (run_events (before @ (''onLoad'', d) # after) s)) \<and>
   dispatch (''onLoad'', d') (dispatch (''onLoad'', d) s) = dispatch (''onLoad'', d) s"
  by (simp add: run_events_after_load placeholder_visible_iff dispatch_onLoad
      handleIframeLoad_def)

text \<open>
  C2. Right after the initial render the placeholder is shown, with its text, and the
  iframe is already in the output with opacity 0; after the load event the placeholder is
  gone and the iframe has opacity 1. The component takes no props: its resource is the
  fixed \<open>GOOGLE_DOC_URL\<close>.
\<close>

theorem placeholder_then_content:
  "placeholder_visible (GoogleDocEmbed initial_state) \<and>
   texts (GoogleDocEmbed initial_state) = [''Loading Syllabus...''] \<and>
   nodes_with_tag ''iframe'' (GoogleDocEmbed initial_state) = [iframe_element initial_state] \<and>
   iframe_opacity (GoogleDocEmbed initial_state) = [Some (Num 0)] \<and>
   \<not> placeholder_visible (GoogleDocEmbed (dispatch (''onLoad'', d) initial_state)) \<and>
   texts (GoogleDocEmbed (dispatch (''onLoad'', d) initial_state)) = [] \<and>
   iframe_opacity (GoogleDocEmbed (dispatch (''onLoad'', d) initial_state)) = [Some (Num 1)]"
  by (simp add: placeholder_visible_iff texts_GoogleDocEmbed nodes_with_tag_iframe
      iframe_opacity_GoogleDocEmbed dispatch_onLoad handleIframeLoad_def initial_state_def)

text \<open>
  C3, as stated: after the transition the placeholder element is still mounted in the
  render output. It is not: the first render output has eleven nodes, the skeleton, its
  wrapper and the loading text among them; the output after the load event has four, the
  three containers and the iframe, and no text.
\<close>

theorem placeholder_stays_mounted_counterexample:
  "mounted skeleton_wrapper (GoogleDocEmbed initial_state) \<and>
   mounted syllabus_skeleton (GoogleDocEmbed initial_state) \<and>
   texts (GoogleDocEmbed initial_state) = [''Loading Syllabus...''] \<and>
   length (subnodes (GoogleDocEmbed initial_state)) = 11 \<and>
   \<not> mounted skeleton_wrapper (GoogleDocEmbed (dispatch (''onLoad'', ()) initial_state)) \<and>
   \<not> mounted syllabus_skeleton (GoogleDocEmbed (dispatch (''onLoad'', ()) initial_state)) \<and>
   texts (GoogleDocEmbed (dispatch (''onLoad'', ()) initial_state)) = [] \<and>
   length (subnodes (GoogleDocEmbed (dispatch (''onLoad'', ()) initial_state))) = 4 \<and>
   element_tags (GoogleDocEmbed (dispatch (''onLoad'', ()) initial_state)) =
     [''div'', ''div'', ''div'', ''iframe'']"
  by (simp add: wrapper_mounted_iff skeleton_mounted_iff texts_GoogleDocEmbed subnodes_count
      element_tags_GoogleDocEmbed dispatch_onLoad handleIframeLoad_def initial_state_def)

text \<open>
  C3, amended. The placeholder and its wrapper are in the render output exactly while
  the loading flag is set, so the transition removes them from the output: what is left
  after the load event is the three containers and the iframe, four nodes with no text.
  The iframe stays mounted: its opacity is 0 while the flag is set, so in the first
  render, and 1 after the load event, and in every state its style carries the
  transition \<open>opacity 0.3s ease-in-out\<close>.
\<close>

theorem placeholder_unmounted_on_load:
  "mounted skeleton_wrapper (GoogleDocEmbed s) = isLoading s \<and>
   mounted syllabus_skeleton (GoogleDocEmbed s) = isLoading s \<and>
   \<not> mounted skeleton_wrapper (GoogleDocEmbed (dispatch (''onLoad'', d) s)) \<and>
   \<not> mounted syllabus_skeleton (GoogleDocEmbed (dispatch (''onLoad'', d) s)) \<and>
   texts (GoogleDocEmbed initial_state) = [''Loading Syllabus...''] \<and>
   length (subnodes (GoogleDocEmbed initial_state)) = 11 \<and>
   texts (GoogleDocEmbed (dispatch (''onLoad'', d) s)) = [] \<and>
   length (subnodes (GoogleDocEmbed (dispatch (''onLoad'', d) s))) = 4 \<and>
   element_tags (GoogleDocEmbed (dispatch (''onLoad'', d) s)) =
     [''div'', ''div'', ''div'', ''iframe''] \<and>
   nodes_with_tag ''iframe'' (GoogleDocEmbed (dispatch (''onLoad'', d) s)) =
     [iframe_element (dispatch (''onLoad'', d) s)] \<and>
   iframe_opacity (GoogleDocEmbed initial_state) = [Some (Num 0)] \<and>
   iframe_opacity (GoogleDocEmbed s) = [Some (Num (if isLoading s then 0 else 1))] \<and>
   iframe_opacity (GoogleDocEmbed (dispatch (''onLoad'', d) s)) = [Some (Num 1)] \<and>
   iframe_transition (GoogleDocEmbed s) = [Some (Str ''opacity 0.3s ease-in-out'')] \<and>
   iframe_transition (GoogleDocEmbed (dispatch (''onLoad'', d) s)) =
     [Some (Str ''opacity 0.3s ease-in-out'')]"
  by (simp add: wrapper_mounted_iff skeleton_mounted_iff texts_GoogleDocEmbed subnodes_count
      element_tags_GoogleDocEmbed dispatch_onLoad handleIframeLoad_def initial_state_def
      nodes_with_tag_iframe iframe_opacity_GoogleDocEmbed iframe_transition_GoogleDocEmbed)

text \<open>
  C4. In every state, and so after any sequence of events from the first render on, the
  render output holds exactly one iframe, with \<open>loading="eager"\<close>, and its attributes
  are those of the first render.
\<close>

theorem iframe_always_mounted_eager:
  "nodes_with_tag ''iframe'' (GoogleDocEmbed s) = [iframe_element s] \<and>
   iframe_loading_attr (GoogleDocEmbed s) = [Some ''eager''] \<and>
   nodes_with_tag ''iframe'' (GoogleDocEmbed (run_events evs initial_state)) =
     [iframe_element (run_events evs initial_state)] \<and>
   iframe_loading_attr (GoogleDocEmbed (run_events evs initial_state)) = [Some ''eager''] \<and>
   props (iframe_element s) = props (iframe_element initial_state)"
  by (simp add: nodes_with_tag_iframe iframe_loading_attr_GoogleDocEmbed iframe_element_def)

text \<open>
  C7. The only handler in the render output is the iframe's \<open>onLoad\<close>. A load event
  fires the transition whatever it carries: the flag is false and the placeholder is gone
  afterwards, and two load events with different details lead to the same state. An
  event of any other name (an error, a timer) changes nothing; while no load event
  arrives the state stays the initial one and the placeholder stays shown; every
  reachable render output is the loading view or the loaded view, and the iframe's
  attributes, its source included, never change.
\<close>

theorem no_error_or_timeout_path:
  "all_handlers (GoogleDocEmbed s) = [(''onLoad'', HandleIframeLoad)] \<and>
   \<not> isLoading (dispatch (''onLoad'', d) s) \<and>
   \<not> placeholder_visible (GoogleDocEmbed (dispatch (''onLoad'', d) s)) \<and>
   iframe_opacity (GoogleDocEmbed (dispatch (''onLoad'', d) s)) = [Some (Num 1)] \<and>
   dispatch (''onLoad'', d) s = dispatch (''onLoad'', d') s \<and>
   (name \<noteq> ''onLoad'' \<longrightarrow> dispatch (name, d) s = s) \<and>
   (''onLoad'' \<notin> set (map fst evs) \<longrightarrow>
      run_events evs initial_state = initial_state \<and>
      isLoading (run_events evs initial_state) \<and>
      placeholder_visible (GoogleDocEmbed (run_events evs initial_state))) \<and>
   (GoogleDocEmbed (run_events evs initial_state) = GoogleDocEmbed initial_state \<or>
    GoogleDocEmbed (run_events evs initial_state) =
      GoogleDocEmbed (handleIframeLoad initial_state)) \<and>
   props (iframe_element (run_events evs initial_state)) = props (iframe_element initial_state)"
proof -
  have "run_events evs initial_state = initial_state \<or>
      run_events evs initial_state = handleIframeLoad initial_state"
    by (cases "isLoading (run_events evs initial_state)")
      (simp_all add: initial_state_def handleIframeLoad_def)
  then have "GoogleDocEmbed (run_events evs initial_state) = GoogleDocEmbed initial_state \<or>
      GoogleDocEmbed (run_events evs initial_state) =
        GoogleDocEmbed (handleIframeLoad initial_state)"
    by auto
  then show ?thesis
    by (simp add: all_handlers_GoogleDocEmbed dispatch_onLoad dispatch_unhandled
        run_events_no_load placeholder_visible_iff iframe_opacity_GoogleDocEmbed
        handleIframeLoad_def initial_state_def iframe_element_def)
qed

theorem no_error_or_timeout_path_witness:
  "run_events [(''onError'', ()), (''onAbort'', ())] initial_state = initial_state \<and>
   isLoading (run_events [(''onError'', ()), (''onAbort'', ())] initial_state) \<and>
   placeholder_visible
     (GoogleDocEmbed (run_events [(''onError'', ()), (''onAbort'', ())] initial_state)) \<and>
   dispatch (''onError'', ()) initial_state = initial_state \<and>
   \<not> isLoading (dispatch (''onLoad'', ()) initial_state)"
proof -
  have no_load: "''onLoad'' \<notin> set (map fst [(''onError'', ()), (''onAbort'', ())])"
    by simp
  have other: "''onError'' \<noteq> ''onLoad''"
    by simp
  from no_load other
    no_error_or_timeout_path
      [of initial_state "()" "()" "''onError''" "[(''onError'', ()), (''onAbort'', ())]"]
  show ?thesis
    by blast
qed

section \<open>The skeleton\<close>

text \<open>
  C10. The skeleton's root takes the supplied height and the text it shows is the
  supplied text: one text node holding it, or no text node when the supplied text is
  empty. With the props left out they are \<open>1200px\<close> and \<open>Loading calendar...\<close>.
  For every combination of the props the output has the same five elements and carries
  no handler.
\<close>

theorem IframeSkeleton_props_and_defaults:
  "style (IframeSkeleton \<lparr>sk_height = Some h, sk_className = c, sk_text = t\<rparr>) =
     [(''height'', Str h)] \<and>
   style (IframeSkeleton \<lparr>sk_height = None, sk_className = c, sk_text = t\<rparr>) =
     [(''height'', Str ''1200px'')] \<and>
   text_content (IframeSkeleton \<lparr>sk_height = hh, sk_className = c, sk_text = Some tx\<rparr>) =
     tx \<and>
   texts (IframeSkeleton \<lparr>sk_height = hh, sk_className = c, sk_text = Some tx\<rparr>) =
     (if tx = [] then [] else [tx]) \<and>
   texts (IframeSkeleton \<lparr>sk_height = hh, sk_className = c, sk_text = None\<rparr>) =
     [''Loading calendar...''] \<and>
   element_tags (IframeSkeleton p) = [''div'', ''Card'', ''div'', ''div'', ''span''] \<and>
   length (subnodes (IframeSkeleton p)) =
     (if default_to ''Loading calendar...'' (sk_text p) = [] then 5 else 6) \<and>
   all_handlers (IframeSkeleton p) = [] \<and>
   style (IframeSkeleton p) = [(''height'', Str (default_to ''1200px'' (sk_height p)))] \<and>
   props (IframeSkeleton p) = [(''className'', ''w-full '' @ default_to [] (sk_className p))] \<and>
   text_content (IframeSkeleton p) = default_to ''Loading calendar...'' (sk_text p)"
  by (simp add: IframeSkeleton_def Let_def text_child_def texts_def text_content_def
      element_tags_def all_handlers_def default_to_def)

section \<open>Class names\<close>

lemma join_loop_space:
  "join_loop '' '' xs k R =
     (if xs = [] then R
      else (if 0 < k then R @ '' '' else R) @ space_separated (map join_element xs))"
proof (induction xs arbitrary: k R)
  case Nil
  then show ?case by simp
next
  case (Cons x xs)
  let ?R = "(if 0 < k then R @ '' '' else R) @ join_element x"
  have "join_loop '' '' (x # xs) k R = join_loop '' '' xs (Suc k) ?R"
    by simp
  also have "\<dots> = (if xs = [] then ?R else (?R @ '' '') @ space_separated (map join_element xs))"
    by (subst Cons.IH) simp
  also have "\<dots> = (if 0 < k then R @ '' '' else R) @ space_separated (map join_element (x # xs))"
    by (cases xs) simp_all
  finally show ?case
    by simp
qed

lemma cn_space_separated:
  "cn classes = space_separated (map join_element (filter Boolean classes))"
  by (simp add: cn_def join_def join_loop_space)

lemma cn_drop_falsy: "\<not> Boolean x \<Longrightarrow> cn (xs @ x # ys) = cn (xs @ ys)"
  by (simp add: cn_def)

text \<open>
  C9. \<open>cn\<close> returns the space-separated join of the truthy entries, in order. An
  \<open>undefined\<close>, \<open>null\<close>, \<open>false\<close> or empty-string entry anywhere in the list
  makes no difference to the result, and a list with no truthy entry, the empty list
  included, gives the empty string.
\<close>

theorem cn_joins_truthy_entries:
  "cn classes = space_separated (map join_element (truthy_entries classes)) \<and>
   cn (xs @ CUndefined # ys) = cn (xs @ ys) \<and>
   cn (xs @ CNull # ys) = cn (xs @ ys) \<and>
   cn (xs @ CBool False # ys) = cn (xs @ ys) \<and>
   cn (xs @ CStr [] # ys) = cn (xs @ ys) \<and>
   (truthy_entries classes = [] \<longrightarrow> cn classes = []) \<and>
   cn [] = []"
  by (simp add: cn_space_separated truthy_entries_def cn_drop_falsy)

theorem cn_joins_truthy_entries_witness:
  "truthy_entries [CUndefined, CNull, CBool False, CStr []] = [] \<and>
   cn [CUndefined, CNull, CBool False, CStr []] = [] \<and>
   cn [CStr ''flex'', CUndefined, CBool False, CStr ''p-4'', CNull, CStr []] = ''flex p-4''"
proof -
  have none: "truthy_entries [CUndefined, CNull, CBool False, CStr []] = []"
    by (simp add: truthy_entries_def)
  have some: "space_separated (map join_element (truthy_entries
      [CStr ''flex'', CUndefined, CBool False, CStr ''p-4'', CNull, CStr []])) = ''flex p-4''"
    by (simp add: truthy_entries_def)
  from none some
    cn_joins_truthy_entries [of "[CUndefined, CNull, CBool False, CStr []]"]
    cn_joins_truthy_entries
      [of "[CStr ''flex'', CUndefined, CBool False, CStr ''p-4'', CNull, CStr []]"]
  show ?thesis
    by simp
qed

section \<open>The base path\<close>

lemma endsWith_slash: "endsWith s ''/'' \<longleftrightarrow> s \<noteq> [] \<and> last s = CHR ''/''"
proof (cases s rule: rev_cases)
  case Nil
  then show ?thesis by (simp add: endsWith_def)
next
  case (snoc ys y)
  then show ?thesis by (auto simp add: endsWith_def)
qed

lemma base_endsWith: "endsWith (base v g) ''/''"
  by (auto simp add: base_def Let_def endsWith_slash)

lemma split_nonempty: "split c s \<noteq> []"
  by (induction s) (auto split: list.splits)

lemma split_unfold:
  "split c s = takeWhile (\<lambda>x. x \<noteq> c) s #
     (if c \<in> set s then split c (drop 1 (dropWhile (\<lambda>x. x \<noteq> c) s)) else [])"
  by (induction s) (auto split: list.splits simp: split_nonempty)

lemma index_split_second:
  assumes "CHR ''/'' \<in> set r"
  shows "index (split CHR ''/'' r) (Suc 0) = Some (second_piece r)"
proof -
  have first: "split CHR ''/'' r =
      takeWhile (\<lambda>x. x \<noteq> CHR ''/'') r # split CHR ''/'' (after_first_slash r)"
    using assms by (subst split_unfold) (simp add: after_first_slash_def)
  have "\<exists>rest. split CHR ''/'' (after_first_slash r) = second_piece r # rest"
    by (subst split_unfold) (simp add: second_piece_def)
  then obtain rest where second: "split CHR ''/'' (after_first_slash r) = second_piece r # rest"
    by blast
  show ?thesis
    by (simp add: first second index_def)
qed

lemma base_from_vite:
  "b \<noteq> [] \<Longrightarrow> base (Some b) g = (if endsWith b ''/'' then b else b @ ''/'')"
  by (auto simp add: base_def endsWith_slash)

lemma base_from_repository:
  assumes "CHR ''/'' \<in> set r"
  shows "base None (Some r) = ''/'' @ second_piece r @ ''/''"
    and "base (Some []) (Some r) = ''/'' @ second_piece r @ ''/''"
  using assms by (auto simp add: base_def endsWith_slash index_split_second template_string_def)

lemma base_default:
  "base None None = ''/''" "base None (Some []) = ''/''"
  "base (Some []) None = ''/''" "base (Some []) (Some []) = ''/''"
  by (simp_all add: base_def endsWith_slash)

text \<open>
  C8, as stated: with only \<open>GITHUB_REPOSITORY\<close> set, the base is the part of that
  variable after its first slash, between two slashes. For \<open>owner/repo/extra\<close> that
  part is \<open>repo/extra\<close>, and the code returns \<open>/repo/\<close>.
\<close>

theorem base_part_after_first_slash_counterexample:
  "base None (Some ''owner/repo/extra'') = ''/repo/'' \<and>
   claimed_base None (Some ''owner/repo/extra'') = ''/repo/extra/'' \<and>
   base None (Some ''owner/repo/extra'') \<noteq> claimed_base None (Some ''owner/repo/extra'')"
  by (simp add: base_def endsWith_def index_def template_string_def after_first_slash_def)

text \<open>
  C8, amended. For every pair of values of the two variables the base ends with a slash.
  When \<open>VITE_BASE_PATH\<close> is a non-empty string the base is that string, with a slash
  appended if it does not end with one. When \<open>VITE_BASE_PATH\<close> is unset or empty and
  \<open>GITHUB_REPOSITORY\<close> contains a slash, the base is the piece of
  \<open>GITHUB_REPOSITORY\<close> from its first slash up to the next slash or the end, between
  two slashes. When both variables are unset or empty the base is a single slash.
\<close>

theorem base_ends_with_slash_and_cases:
  "endsWith (base v g) ''/'' \<and>
   (b \<noteq> [] \<longrightarrow> base (Some b) g = (if endsWith b ''/'' then b else b @ ''/'')) \<and>
   (CHR ''/'' \<in> set r \<longrightarrow>
      base None (Some r) = ''/'' @ second_piece r @ ''/'' \<and>
      base (Some []) (Some r) = ''/'' @ second_piece r @ ''/'') \<and>
   base None None = ''/'' \<and> base None (Some []) = ''/'' \<and>
   base (Some []) None = ''/'' \<and> base (Some []) (Some []) = ''/''"
  by (simp add: base_endsWith base_from_vite base_from_repository base_default)

theorem base_ends_with_slash_and_cases_witness:
  "base (Some ''/docs'') (Some ''owner/CSE-140-Website'') = ''/docs/'' \<and>
   base None (Some ''owner/CSE-140-Website'') = ''/CSE-140-Website/'' \<and>
   base (Some []) (Some ''owner/CSE-140-Website'') = ''/CSE-140-Website/'' \<and>
   endsWith (base (Some ''/docs'') (Some ''owner/CSE-140-Website'')) ''/''"
proof -
  have set_path: "''/docs'' \<noteq> []"
    by simp
  have has_slash: "CHR ''/'' \<in> set ''owner/CSE-140-Website''"
    by simp
  have no_slash_at_end: "\<not> endsWith ''/docs'' ''/''"
    by (simp add: endsWith_def)
  have piece: "second_piece ''owner/CSE-140-Website'' = ''CSE-140-Website''"
    by (simp add: second_piece_def after_first_slash_def)
  from set_path has_slash no_slash_at_end piece
    base_ends_with_slash_and_cases [of "Some ''/docs''" "Some ''owner/CSE-140-Website''"
      "''/docs''" "''owner/CSE-140-Website''"]
  show ?thesis
    by (simp add: endsWith_def)
qed

section \<open>Preloading\<close>

lemma coherent_ensure_one: "coherent pc \<Longrightarrow> coherent (ensure_one pc d)"
  by (auto simp add: coherent_def ensure_one_def)

lemma coherent_EnsurePreloaded: "coherent pc \<Longrightarrow> coherent (EnsurePreloaded ds pc)"
  by (induction ds arbitrary: pc) (simp_all add: coherent_ensure_one)

lemma coherent_ensure_calls: "coherent pc \<Longrightarrow> coherent (ensure_calls Ls pc)"
  by (induction Ls arbitrary: pc) (simp_all add: coherent_EnsurePreloaded)

lemma registry_EnsurePreloaded:
  "registry (EnsurePreloaded ds pc) = registry pc \<union> set (map rd_id ds)"
  by (induction ds arbitrary: pc) (auto simp add: ensure_one_def)

lemma registry_ensure_calls:
  "registry (ensure_calls Ls pc) = registry pc \<union> ids_of_calls Ls"
  by (induction Ls arbitrary: pc) (auto simp add: registry_EnsurePreloaded ids_of_calls_def)

lemma count_distinct_ids:
  "distinct (map rd_id ds) \<Longrightarrow>
   length (filter (\<lambda>d. rd_id d = i) ds) = (if i \<in> set (map rd_id ds) then 1 else 0)"
  by (induction ds) auto

lemma instances_for_coherent:
  "coherent pc \<Longrightarrow> instances_for i pc = (if i \<in> registry pc then 1 else 0)"
  by (simp add: coherent_def instances_for_def count_distinct_ids)

lemma EnsurePreloaded_known:
  "set (map rd_id ds) \<subseteq> registry pc \<Longrightarrow> EnsurePreloaded ds pc = pc"
  by (induction ds arbitrary: pc) (simp_all add: ensure_one_def)

lemma EnsurePreloaded_twice:
  "EnsurePreloaded L (EnsurePreloaded L pc) = EnsurePreloaded L pc"
  by (rule EnsurePreloaded_known) (simp add: registry_EnsurePreloaded)

text \<open>
  C5. After any sequence of \<open>EnsurePreloaded\<close> calls from process start, the number of
  hidden instances created for an id is 1 if the id occurs in one of the lists and 0
  otherwise; no two instances share an id, and repeating a call creates nothing.
\<close>

theorem one_preload_instance_per_id:
  "instances_for i (ensure_calls Ls process_start) = (if i \<in> ids_of_calls Ls then 1 else 0) \<and>
   distinct (map rd_id (instances (ensure_calls Ls process_start))) \<and>
   EnsurePreloaded L (EnsurePreloaded L pc) = EnsurePreloaded L pc"
proof -
  have "coherent process_start"
    by (simp add: coherent_def process_start_def)
  then have c: "coherent (ensure_calls Ls process_start)"
    by (rule coherent_ensure_calls)
  then have "instances_for i (ensure_calls Ls process_start) =
      (if i \<in> ids_of_calls Ls then 1 else 0)"
    by (simp add: instances_for_coherent registry_ensure_calls process_start_def)
  moreover from c have "distinct (map rd_id (instances (ensure_calls Ls process_start)))"
    by (simp add: coherent_def)
  ultimately show ?thesis
    by (simp add: EnsurePreloaded_twice)
qed

theorem one_preload_instance_per_id_witness:
  "instances_for ''b''
     (ensure_calls
        [[\<lparr>rd_id = ''a'', rd_sourceUrl = ''https://example/a'', rd_kind = Document\<rparr>,
          \<lparr>rd_id = ''b'', rd_sourceUrl = ''https://example/b'', rd_kind = Document\<rparr>],
         [\<lparr>rd_id = ''b'', rd_sourceUrl = ''https://example/b'', rd_kind = Document\<rparr>,
          \<lparr>rd_id = ''c'', rd_sourceUrl = ''https://example/c'', rd_kind = Scene3D\<rparr>]]
        process_start) = 1 \<and>
   instances_for ''d''
     (ensure_calls
        [[\<lparr>rd_id = ''a'', rd_sourceUrl = ''https://example/a'', rd_kind = Document\<rparr>,
          \<lparr>rd_id = ''b'', rd_sourceUrl = ''https://example/b'', rd_kind = Document\<rparr>],
         [\<lparr>rd_id = ''b'', rd_sourceUrl = ''https://example/b'', rd_kind = Document\<rparr>,
          \<lparr>rd_id = ''c'', rd_sourceUrl = ''https://example/c'', rd_kind = Scene3D\<rparr>]]
        process_start) = 0"
  using
    one_preload_instance_per_id [of "''b''"
      "[[\<lparr>rd_id = ''a'', rd_sourceUrl = ''https://example/a'', rd_kind = Document\<rparr>,
         \<lparr>rd_id = ''b'', rd_sourceUrl = ''https://example/b'', rd_kind = Document\<rparr>],
        [\<lparr>rd_id = ''b'', rd_sourceUrl = ''https://example/b'', rd_kind = Document\<rparr>,
         \<lparr>rd_id = ''c'', rd_sourceUrl = ''https://example/c'', rd_kind = Scene3D\<rparr>]]"]
    one_preload_instance_per_id [of "''d''"
      "[[\<lparr>rd_id = ''a'', rd_sourceUrl = ''https://example/a'', rd_kind = Document\<rparr>,
         \<lparr>rd_id = ''b'', rd_sourceUrl = ''https://example/b'', rd_kind = Document\<rparr>],
        [\<lparr>rd_id = ''b'', rd_sourceUrl = ''https://example/b'', rd_kind = Document\<rparr>,
         \<lparr>rd_id = ''c'', rd_sourceUrl = ''https://example/c'', rd_kind = Scene3D\<rparr>]]"]
  by (simp add: ids_of_calls_def)

end
